theory Spec2Isabelle
  imports Main "HOL-Library.Word"
begin

section \<open>The TLS listener facade of wileedot: data model\<close>

text \<open>
  The package \<open>tlslistener\<close> (file \<open>coyote.go\<close>) wraps a \<open>net.Listener\<close> with a
  certificate manager of \<open>golang.org/x/crypto/acme/autocert\<close>. The Go standard library and
  autocert are not part of the package: their values are modelled as data, and every call
  into them that has an effect or an answer of its own goes through the record \<open>world\<close>
  below, which holds the answers of the environment and the trace of the calls made so far.
  Nothing is assumed about those answers.

  The source holds the package twice. The two copies agree on \<open>TLSListener\<close>, \<open>Config\<close>,
  \<open>New\<close>, \<open>setup\<close>, \<open>Accept\<close>, \<open>Close\<close>, \<open>Addr\<close> and \<open>renewCertificates\<close>, which are
  modelled once; the first copy adds \<open>certInfo\<close>, \<open>getCertInfo\<close>, \<open>shouldRenew\<close> and \<open>logf\<close>,
  and the two copies differ in \<open>renewalRoutine\<close> (lines 202-221 and lines 381-390).
\<close>

subsection \<open>Errors\<close>

text \<open>
  \<open>errors.New msg\<close> and \<open>errors.Wrap err msg\<close> of \<open>github.com/pkg/errors\<close>, and the errors
  that come out of the libraries (\<open>lib_error\<close>), which the package only passes on.
\<close>

datatype error = errors_New string | errors_Wrap error string | lib_error string

subsection \<open>Values of the libraries\<close>

text \<open>An instant (\<open>time.Time\<close>) is a point on the time line; a \<open>time.Duration\<close> counts nanoseconds.\<close>

type_synonym Time = int

type_synonym Duration = int

definition Hour :: Duration where
  "Hour = 3600 * 1000000000"

definition Time_After :: "Time \<Rightarrow> Time \<Rightarrow> bool" where
  "Time_After t u = (u < t)"

type_synonym bytes = "8 word list"

datatype Conn = Conn nat

datatype Addr = Addr string string

datatype Cache = DirCache string

datatype Prompt = AcceptTOS

text \<open>
  \<open>autocert.HostWhitelist hosts\<close> is the policy built from the given names. The library
  does not keep the names as given: it fills its table with \<open>idna.Lookup.ToASCII\<close> of each
  name (lower case, Punycode), leaves out every name that \<open>ToASCII\<close> refuses, and the policy
  then allows a host exactly when the host is in the table. \<open>whitelist\<close> is that table and
  \<open>HostPolicy_allows\<close> the lookup; \<open>ToASCII\<close> itself is a function of the library and is
  taken as a parameter (the field \<open>idna_ToASCII\<close> of the environment below).
\<close>

datatype HostPolicy = HostWhitelist "string list"

fun whitelist :: "(string \<Rightarrow> error + string) \<Rightarrow> string list \<Rightarrow> string list" where
  "whitelist toASCII [] = []"
| "whitelist toASCII (h # hosts) =
     (case toASCII h of
        Inr a \<Rightarrow> a # whitelist toASCII hosts
      | Inl err \<Rightarrow> whitelist toASCII hosts)"

fun HostPolicy_allows :: "(string \<Rightarrow> error + string) \<Rightarrow> HostPolicy \<Rightarrow> string \<Rightarrow> bool" where
  "HostPolicy_allows toASCII (HostWhitelist hosts) host = (host \<in> set (whitelist toASCII hosts))"

record Manager =
  Cache :: Cache
  Prompt :: Prompt
  Email :: string
  HostPolicy :: HostPolicy

text \<open>
  The fields of \<open>tls.Config\<close> that the manager's \<open>TLSConfig\<close> and the package touch.
  \<open>GetCertificate\<close> is a method value; the model keeps the manager it is bound to.
\<close>

record tls_Config =
  GetCertificate :: "Manager option"
  NextProtos :: "string list"
  MinVersion :: "16 word"

definition VersionTLS12 :: "16 word" where
  "VersionTLS12 = 0x0303"

record ClientHelloInfo =
  ServerName :: string

text \<open>\<open>tls.Certificate\<close>: the chain, leaf first, each certificate in DER.\<close>

record tls_Certificate =
  Certificate :: "bytes list"

record x509_Certificate =
  leaf_NotBefore :: Time
  leaf_NotAfter :: Time

text \<open>
  A \<open>net.Listener\<close> is either a plain listener, known by its handle (a caller's listener or
  a socket bound by \<open>net.Listen\<close>), or the listener that \<open>tls.NewListener\<close> builds around an
  inner listener and a configuration. A nil interface value is \<open>None\<close>.
\<close>

datatype Listener = net_Listener nat | tls_Listener Listener tls_Config

definition tls_NewListener :: "Listener \<Rightarrow> tls_Config \<Rightarrow> Listener" where
  "tls_NewListener inner config = tls_Listener inner config"

subsection \<open>The package's own types\<close>

text \<open>
  \<open>TLSListener\<close> without its lock \<open>mu\<close>: every access to \<open>listener\<close> and \<open>certManager\<close>
  happens under the lock, so each read and each write below is one atomic step.
  The receiver \<open>tl\<close> of the source is written \<open>self\<close> (\<open>tl\<close> is the tail of a list in HOL),
  the method \<open>setup\<close> is \<open>setup_tl\<close> and the method \<open>Addr\<close> is \<open>Addr_of\<close>.
\<close>

record TLSListener =
  listener :: "Listener option"
  certManager :: "Manager option"
  domain :: string
  certDir :: string
  email :: string
  allowedDomains :: "string list"

record Config =
  cfg_Domain :: string
  cfg_AllowedDomains :: "string list"
  cfg_CertDir :: string
  cfg_Email :: string
  cfg_BaseListener :: "Listener option"

record certInfo =
  NotBefore :: Time
  NotAfter :: Time

subsection \<open>The environment\<close>

text \<open>
  The trace records the calls that leave the package (and, as \<open>Ev_setup\<close> and
  \<open>Ev_go_renewalRoutine\<close>, the entry into \<open>setup\<close> and the start of the goroutine).
\<close>

datatype arg = Arg_error error | Arg_string string

datatype event =
    Ev_setup
  | Ev_go_renewalRoutine
  | Ev_tls_Listen string string tls_Config
  | Ev_Accept Listener
  | Ev_Close Listener
  | Ev_Addr Listener
  | Ev_GetCertificate Manager ClientHelloInfo
  | Ev_Printf string "arg list"
  | Ev_NewTicker Duration
  | Ev_ticker_Stop

text \<open>
  The answers of the environment. An answer may depend on everything that happened before
  (the trace), so two calls of the same operation can be answered differently.
  \<open>bind\<close> answers \<open>tls.Listen\<close>: an error, or the listener bound at the address.
\<close>

record world =
  events :: "event list"
  bind :: "event list \<Rightarrow> string \<Rightarrow> string \<Rightarrow> tls_Config \<Rightarrow> error + Listener"
  accept_answer :: "event list \<Rightarrow> Listener \<Rightarrow> Conn option \<times> error option"
  close_answer :: "event list \<Rightarrow> Listener \<Rightarrow> error option"
  addr_answer :: "event list \<Rightarrow> Listener \<Rightarrow> Addr option"
  TLSConfig :: "Manager \<Rightarrow> tls_Config"
  idna_ToASCII :: "string \<Rightarrow> error + string"
  certificate_answer :: "event list \<Rightarrow> Manager \<Rightarrow> ClientHelloInfo \<Rightarrow> error + tls_Certificate"
  x509_ParseCertificate :: "bytes \<Rightarrow> error + x509_Certificate"
  clock :: "event list \<Rightarrow> Time"
  AddDate :: "Time \<Rightarrow> int \<Rightarrow> int \<Rightarrow> int \<Rightarrow> Time"

definition emit :: "event \<Rightarrow> world \<Rightarrow> world" where
  "emit e w = w\<lparr>events := events w @ [e]\<rparr>"

text \<open>A call either returns or panics (an index out of range), which ends the process.\<close>

datatype 'a outcome = Returns 'a | Panics

subsection \<open>Calls into the libraries\<close>

text \<open>
  \<open>tls.Listen network laddr config\<close>: binds the address and wraps the bound listener with
  \<open>tls.NewListener\<close>, or fails.
\<close>

definition tls_Listen :: "string \<Rightarrow> string \<Rightarrow> tls_Config \<Rightarrow> world \<Rightarrow> (error + Listener) \<times> world" where
  "tls_Listen network laddr config w =
     (case bind w (events w) network laddr config of
        Inl err \<Rightarrow> (Inl err, emit (Ev_tls_Listen network laddr config) w)
      | Inr l \<Rightarrow> (Inr (tls_NewListener l config), emit (Ev_tls_Listen network laddr config) w))"

definition Listener_Accept :: "Listener \<Rightarrow> world \<Rightarrow> (Conn option \<times> error option) \<times> world" where
  "Listener_Accept l w = (accept_answer w (events w) l, emit (Ev_Accept l) w)"

definition Listener_Close :: "Listener \<Rightarrow> world \<Rightarrow> error option \<times> world" where
  "Listener_Close l w = (close_answer w (events w) l, emit (Ev_Close l) w)"

definition Listener_Addr :: "Listener \<Rightarrow> world \<Rightarrow> Addr option \<times> world" where
  "Listener_Addr l w = (addr_answer w (events w) l, emit (Ev_Addr l) w)"

definition Manager_GetCertificate ::
    "Manager \<Rightarrow> ClientHelloInfo \<Rightarrow> world \<Rightarrow> (error + tls_Certificate) \<times> world" where
  "Manager_GetCertificate m hello w =
     (certificate_answer w (events w) m hello, emit (Ev_GetCertificate m hello) w)"

definition time_Now :: "world \<Rightarrow> Time" where
  "time_Now w = clock w (events w)"

definition fmt_Printf :: "string \<Rightarrow> arg list \<Rightarrow> world \<Rightarrow> world" where
  "fmt_Printf format args w = emit (Ev_Printf format args) w"

section \<open>The operations of the package\<close>

subsection \<open>Construction: \<open>New\<close> and \<open>setup\<close>\<close>

definition setup_tl :: "TLSListener \<Rightarrow> Listener option \<Rightarrow> world \<Rightarrow> (error option \<times> TLSListener) \<times> world" where
  "setup_tl self baseListener w0 =
     (let w = emit Ev_setup w0;
          manager = \<lparr>Cache = DirCache (certDir self), Prompt = AcceptTOS, Email = email self,
                     HostPolicy = HostWhitelist (allowedDomains self)\<rparr>;
          tlsConfig = (TLSConfig w manager)\<lparr>MinVersion := VersionTLS12\<rparr>
      in case baseListener of
           None \<Rightarrow>
             (case tls_Listen ''tcp'' '':443'' tlsConfig w of
                (Inl err, w') \<Rightarrow> ((Some (errors_Wrap err ''failed to create TLS listener''), self), w')
              | (Inr l, w') \<Rightarrow> ((None, self\<lparr>listener := Some l, certManager := Some manager\<rparr>), w'))
         | Some base \<Rightarrow>
             ((None, self\<lparr>listener := Some (tls_NewListener base tlsConfig),
                         certManager := Some manager\<rparr>), w))"

definition New :: "Config \<Rightarrow> world \<Rightarrow> (TLSListener option \<times> error option) \<times> world" where
  "New cfg w =
     (if cfg_Domain cfg = [] then ((None, Some (errors_New ''domain is required'')), w)
      else if cfg_CertDir cfg = [] then
        ((None, Some (errors_New ''certificate directory is required'')), w)
      else
        (let self = \<lparr>listener = None, certManager = None, domain = cfg_Domain cfg,
                   certDir = cfg_CertDir cfg, email = cfg_Email cfg,
                   allowedDomains = [cfg_Domain cfg] @ cfg_AllowedDomains cfg\<rparr>
         in case setup_tl self (cfg_BaseListener cfg) w of
              ((Some err, _), w') \<Rightarrow>
                ((None, Some (errors_Wrap err ''failed to setup TLS listener'')), w')
            | ((None, self'), w') \<Rightarrow> ((Some self', None), emit Ev_go_renewalRoutine w')))"

subsection \<open>The \<open>net.Listener\<close> interface\<close>

definition Accept :: "TLSListener \<Rightarrow> world \<Rightarrow> (Conn option \<times> error option) \<times> world" where
  "Accept self w =
     (case listener self of
        None \<Rightarrow> ((None, Some (errors_New ''listener is closed'')), w)
      | Some l \<Rightarrow> Listener_Accept l w)"

definition Close :: "TLSListener \<Rightarrow> world \<Rightarrow> (error option \<times> TLSListener) \<times> world" where
  "Close self w =
     (case listener self of
        None \<Rightarrow> ((None, self), w)
      | Some l \<Rightarrow> (case Listener_Close l w of (err, w') \<Rightarrow> ((err, self\<lparr>listener := None\<rparr>), w')))"

definition Addr_of :: "TLSListener \<Rightarrow> world \<Rightarrow> Addr option \<times> world" where
  "Addr_of self w =
     (case listener self of
        None \<Rightarrow> (None, w)
      | Some l \<Rightarrow> Listener_Addr l w)"

subsection \<open>Certificate information and the renewal decision (first copy)\<close>

definition getCertInfo :: "TLSListener \<Rightarrow> world \<Rightarrow> (certInfo option \<times> error option) outcome \<times> world" where
  "getCertInfo self w =
     (case certManager self of
        None \<Rightarrow> (Returns (None, Some (errors_New ''cert manager is not initialized'')), w)
      | Some manager \<Rightarrow>
          (case Manager_GetCertificate manager \<lparr>ServerName = domain self\<rparr> w of
             (Inl err, w') \<Rightarrow>
               (Returns (None, Some (errors_Wrap err ''failed to get current certificate'')), w')
           | (Inr cert, w') \<Rightarrow>
               (case Certificate cert of
                  [] \<Rightarrow> (Panics, w')
                | der # _ \<Rightarrow>
                    (case x509_ParseCertificate w' der of
                       Inl err \<Rightarrow>
                         (Returns (None, Some (errors_Wrap err ''failed to parse certificate'')), w')
                     | Inr leaf \<Rightarrow>
                         (Returns (Some \<lparr>NotBefore = leaf_NotBefore leaf,
                                          NotAfter = leaf_NotAfter leaf\<rparr>, None), w')))))"

definition shouldRenew :: "TLSListener \<Rightarrow> world \<Rightarrow> (bool \<times> error option) outcome \<times> world" where
  "shouldRenew self w =
     (case getCertInfo self w of
        (Panics, w') \<Rightarrow> (Panics, w')
      | (Returns (_, Some err), w') \<Rightarrow> (Returns (False, Some err), w')
      | (Returns (None, None), w') \<Rightarrow> (Panics, w')
      | (Returns (Some info, None), w') \<Rightarrow>
          (let now = time_Now w';
               twoMonthsAgo = AddDate w' now 0 (- 2) 0
           in if Time_After (NotBefore info) twoMonthsAgo then (Returns (False, None), w')
              else
                (let thirtyDaysFromNow = AddDate w' now 0 0 30
                 in if Time_After thirtyDaysFromNow (NotAfter info) then (Returns (True, None), w')
                    else (Returns (True, None), w'))))"

definition renewCertificates :: "TLSListener \<Rightarrow> world \<Rightarrow> error option \<times> world" where
  "renewCertificates self w =
     (case certManager self of
        None \<Rightarrow> (Some (errors_New ''cert manager is not initialized''), w)
      | Some manager \<Rightarrow>
          (case Manager_GetCertificate manager \<lparr>ServerName = domain self\<rparr> w of
             (Inl err, w') \<Rightarrow> (Some err, w')
           | (Inr _, w') \<Rightarrow> (None, w')))"

definition logf :: "string \<Rightarrow> arg list \<Rightarrow> world \<Rightarrow> world" where
  "logf format args w = fmt_Printf (format @ [CHR 0x0A]) args w"

subsection \<open>The renewal routine\<close>

text \<open>
  \<open>for range ticker.C\<close> never ends by itself: the body runs once for every tick the ticker
  delivers. \<open>renewalRoutine_body\<close> is one run of the body; \<open>renewalRoutine_ticks self n\<close> is
  the loop over the first \<open>n\<close> ticks, and says whether the routine is then waiting for the
  next tick or has panicked (the deferred \<open>ticker.Stop\<close> runs on the way out).
\<close>

datatype routine_status = AwaitingTick | Panicked

definition renewalRoutine_body :: "TLSListener \<Rightarrow> world \<Rightarrow> unit outcome \<times> world" where
  "renewalRoutine_body self w =
     (case shouldRenew self w of
        (Panics, w') \<Rightarrow> (Panics, w')
      | (Returns (_, Some err), w') \<Rightarrow>
          (Returns (), logf ''Failed to check certificate renewal status: %v'' [Arg_error err] w')
      | (Returns (should, None), w') \<Rightarrow>
          (if should then
             (case renewCertificates self w' of
                (Some err, w'') \<Rightarrow>
                  (Returns (), logf ''Failed to renew certificates: %v'' [Arg_error err] w'')
              | (None, w'') \<Rightarrow>
                  (Returns (),
                   logf ''Successfully renewed certificates for %s'' [Arg_string (domain self)] w''))
           else (Returns (), w')))"

fun renewalRoutine_ticks :: "TLSListener \<Rightarrow> nat \<Rightarrow> world \<Rightarrow> routine_status \<times> world" where
  "renewalRoutine_ticks self 0 w = (AwaitingTick, w)"
| "renewalRoutine_ticks self (Suc n) w =
     (case renewalRoutine_body self w of
        (Panics, w') \<Rightarrow> (Panicked, emit Ev_ticker_Stop w')
      | (Returns _, w') \<Rightarrow> renewalRoutine_ticks self n w')"

definition renewalRoutine :: "TLSListener \<Rightarrow> nat \<Rightarrow> world \<Rightarrow> routine_status \<times> world" where
  "renewalRoutine self n w = renewalRoutine_ticks self n (emit (Ev_NewTicker (24 * Hour)) w)"

text \<open>The second copy (lines 381-390): every tick renews, on a period of about two months.\<close>

definition renewalRoutine_body_copy2 :: "TLSListener \<Rightarrow> world \<Rightarrow> world" where
  "renewalRoutine_body_copy2 self w =
     (case renewCertificates self w of
        (Some err, w') \<Rightarrow>
          fmt_Printf (''Failed to renew certificates: %v'' @ [CHR 0x0A]) [Arg_error err] w'
      | (None, w') \<Rightarrow> w')"

fun renewalRoutine_ticks_copy2 :: "TLSListener \<Rightarrow> nat \<Rightarrow> world \<Rightarrow> routine_status \<times> world" where
  "renewalRoutine_ticks_copy2 self 0 w = (AwaitingTick, w)"
| "renewalRoutine_ticks_copy2 self (Suc n) w =
     renewalRoutine_ticks_copy2 self n (renewalRoutine_body_copy2 self w)"

definition renewalRoutine_copy2 :: "TLSListener \<Rightarrow> nat \<Rightarrow> world \<Rightarrow> routine_status \<times> world" where
  "renewalRoutine_copy2 self n w =
     renewalRoutine_ticks_copy2 self n (emit (Ev_NewTicker (2 * 30 * 24 * Hour)) w)"

section \<open>Histories of a listener\<close>

text \<open>
  After construction a listener is used by its callers and by the renewal goroutine, in any
  order. A history is a list of calls; \<open>step\<close> runs one call and gives the listener
  afterwards, \<open>run\<close> runs a history and stops where a call panics. The calls that only read
  the listener give it back as it was.
\<close>

datatype call =
    Call_Accept
  | Call_Close
  | Call_Addr
  | Call_getCertInfo
  | Call_shouldRenew
  | Call_renewCertificates
  | Call_renewalTick
  | Call_renewalTick_copy2

fun step :: "call \<Rightarrow> TLSListener \<Rightarrow> world \<Rightarrow> TLSListener outcome \<times> world" where
  "step Call_Accept self w = (Returns self, snd (Accept self w))"
| "step Call_Close self w = (Returns (snd (fst (Close self w))), snd (Close self w))"
| "step Call_Addr self w = (Returns self, snd (Addr_of self w))"
| "step Call_getCertInfo self w =
     (case getCertInfo self w of (Panics, w') \<Rightarrow> (Panics, w') | (Returns _, w') \<Rightarrow> (Returns self, w'))"
| "step Call_shouldRenew self w =
     (case shouldRenew self w of (Panics, w') \<Rightarrow> (Panics, w') | (Returns _, w') \<Rightarrow> (Returns self, w'))"
| "step Call_renewCertificates self w = (Returns self, snd (renewCertificates self w))"
| "step Call_renewalTick self w =
     (case renewalRoutine_body self w of
        (Panics, w') \<Rightarrow> (Panics, w') | (Returns _, w') \<Rightarrow> (Returns self, w'))"
| "step Call_renewalTick_copy2 self w = (Returns self, renewalRoutine_body_copy2 self w)"

fun run :: "call list \<Rightarrow> TLSListener \<Rightarrow> world \<Rightarrow> TLSListener \<times> world" where
  "run [] self w = (self, w)"
| "run (c # cs) self w =
     (case step c self w of
        (Panics, w') \<Rightarrow> (self, w')
      | (Returns self', w') \<Rightarrow> run cs self' w')"

subsection \<open>Reading the trace\<close>

text \<open>The events that a call added to the trace, and the certificate requests among them.\<close>

definition new_events :: "world \<Rightarrow> world \<Rightarrow> event list" where
  "new_events w w' = drop (length (events w)) (events w')"

fun is_GetCertificate :: "event \<Rightarrow> bool" where
  "is_GetCertificate (Ev_GetCertificate m hello) = True"
| "is_GetCertificate e = False"

definition GetCertificate_calls :: "event list \<Rightarrow> event list" where
  "GetCertificate_calls es = filter is_GetCertificate es"

subsection \<open>Sample inputs\<close>

text \<open>
  A configuration and three environments on which the theorems below are run. Time is
  counted in days here, and \<open>AddDate\<close> takes a month as thirty of them. In \<open>world_aged\<close> the
  certificate in use is a hundred days old; in \<open>world_fresh\<close> it is ten days old; in
  \<open>world_failing\<close> the manager answers every request with an error and the listener
  refuses to close cleanly.
\<close>

definition sample_Config :: Config where
  "sample_Config =
     \<lparr>cfg_Domain = ''example.com'', cfg_AllowedDomains = [''www.example.com''],
      cfg_CertDir = ''/etc/certs'', cfg_Email = ''admin@example.com'',
      cfg_BaseListener = None\<rparr>"

definition sample_TLSConfig :: "Manager \<Rightarrow> tls_Config" where
  "sample_TLSConfig m =
     \<lparr>GetCertificate = Some m, NextProtos = [''h2'', ''http/1.1'', ''acme-tls/1''], MinVersion = 0\<rparr>"

text \<open>
  A stand-in for \<open>idna.Lookup.ToASCII\<close> on names of ASCII letters, digits, hyphens and dots,
  where the library lower-cases the letters; every other name is refused here, as the
  library refuses a name with an underscore.
\<close>

definition ascii_lower :: "char \<Rightarrow> char" where
  "ascii_lower c =
     (if 65 \<le> (of_char c :: nat) \<and> (of_char c :: nat) \<le> 90
      then (case c of Char b0 b1 b2 b3 b4 b5 b6 b7 \<Rightarrow> Char b0 b1 b2 b3 b4 True b6 b7)
      else c)"

definition is_ldh :: "char \<Rightarrow> bool" where
  "is_ldh c =
     (let n = (of_char c :: nat)
      in (65 \<le> n \<and> n \<le> 90) \<or> (97 \<le> n \<and> n \<le> 122) \<or> (48 \<le> n \<and> n \<le> 57)
         \<or> n = 45 \<or> n = 46)"

definition sample_ToASCII :: "string \<Rightarrow> error + string" where
  "sample_ToASCII h =
     (if list_all is_ldh h then Inr (map ascii_lower h)
      else Inl (lib_error ''idna: disallowed rune''))"

definition der_sample :: bytes where
  "der_sample = [0x30, 0x82]"

definition world_aged :: world where
  "world_aged =
     \<lparr>events = [],
      bind = (\<lambda>h network laddr config. Inr (net_Listener 7)),
      accept_answer = (\<lambda>h l. (Some (Conn (length h)), None)),
      close_answer = (\<lambda>h l. None),
      addr_answer = (\<lambda>h l. Some (Addr ''tcp'' ''[::]:443'')),
      TLSConfig = sample_TLSConfig,
      idna_ToASCII = sample_ToASCII,
      certificate_answer = (\<lambda>h m hello. Inr \<lparr>Certificate = [der_sample]\<rparr>),
      x509_ParseCertificate = (\<lambda>der. Inr \<lparr>leaf_NotBefore = 0, leaf_NotAfter = 90\<rparr>),
      clock = (\<lambda>h. 100),
      AddDate = (\<lambda>t years months days. t + 365 * years + 30 * months + days)\<rparr>"

definition world_fresh :: world where
  "world_fresh = world_aged\<lparr>clock := (\<lambda>h. 10)\<rparr>"

definition world_failing :: world where
  "world_failing =
     world_aged
       \<lparr>bind := (\<lambda>h network laddr config. Inl (lib_error ''listen tcp :443: bind: permission denied'')),
        close_answer := (\<lambda>h l. Some (lib_error ''use of closed network connection'')),
        certificate_answer := (\<lambda>h m hello. Inl (lib_error ''acme/autocert: missing certificate''))\<rparr>"

text \<open>
  In \<open>world_flaky\<close> the manager answers the first request with the old certificate and
  every later one with an error.
\<close>

definition world_flaky :: world where
  "world_flaky =
     world_aged
       \<lparr>certificate_answer :=
          (\<lambda>h m hello. if GetCertificate_calls h = [] then Inr \<lparr>Certificate = [der_sample]\<rparr>
                         else Inl (lib_error ''acme: rate limited''))\<rparr>"

definition sample_Manager :: Manager where
  "sample_Manager =
     \<lparr>Cache = DirCache ''/etc/certs'', Prompt = AcceptTOS, Email = ''admin@example.com'',
      HostPolicy = HostWhitelist [''example.com'', ''www.example.com'']\<rparr>"

definition sample_TLSListener :: TLSListener where
  "sample_TLSListener =
     \<lparr>listener = Some (tls_Listener (net_Listener 7)
                        ((sample_TLSConfig sample_Manager)\<lparr>MinVersion := VersionTLS12\<rparr>)),
      certManager = Some sample_Manager,
      domain = ''example.com'', certDir = ''/etc/certs'', email = ''admin@example.com'',
      allowedDomains = [''example.com'', ''www.example.com'']\<rparr>"

section \<open>Properties\<close>

lemmas sample_defs = sample_Config_def sample_TLSConfig_def world_aged_def world_fresh_def
  world_failing_def world_flaky_def sample_Manager_def sample_TLSListener_def

lemmas lib_defs = tls_Listen_def Listener_Accept_def Listener_Close_def Listener_Addr_def
  Manager_GetCertificate_def time_Now_def fmt_Printf_def emit_def logf_def Time_After_def
  tls_NewListener_def

subsection \<open>What a call adds to the trace\<close>

lemma getCertInfo_events:
  "certManager self = Some m \<Longrightarrow>
     events (snd (getCertInfo self w)) = events w @ [Ev_GetCertificate m \<lparr>ServerName = domain self\<rparr>]"
  by (simp add: getCertInfo_def Manager_GetCertificate_def emit_def
      split: sum.splits list.splits)

lemma shouldRenew_events:
  "certManager self = Some m \<Longrightarrow>
     events (snd (shouldRenew self w)) = events w @ [Ev_GetCertificate m \<lparr>ServerName = domain self\<rparr>]"
  using getCertInfo_events [of self m w]
  by (auto simp: shouldRenew_def Let_def split: prod.splits outcome.splits option.splits)

lemma renewCertificates_events:
  "certManager self = Some m \<Longrightarrow>
     events (snd (renewCertificates self w)) = events w @ [Ev_GetCertificate m \<lparr>ServerName = domain self\<rparr>]"
  by (simp add: renewCertificates_def Manager_GetCertificate_def emit_def split: sum.splits)

lemma events_logf: "events (logf format args w) = events w @ [Ev_Printf (format @ [CHR 0x0A]) args]"
  by (simp add: logf_def fmt_Printf_def emit_def)

subsection \<open>Certificate requests per tick\<close>

text \<open>
  Claim C1, as the specification states it: on every tick the renewal routine calls the
  manager's \<open>GetCertificate\<close> for the configured domain exactly once. The routine of the
  first copy does not: with a certificate that is a hundred days old, one tick asks for the
  certificate twice, once in \<open>getCertInfo\<close> and once in \<open>renewCertificates\<close>.
\<close>

theorem renewalRoutine_once_per_tick_counterexample:
  "length (GetCertificate_calls
     (new_events world_aged (snd (renewalRoutine_body sample_TLSListener world_aged)))) \<noteq> 1"
  by (simp add: renewalRoutine_body_def shouldRenew_def getCertInfo_def renewCertificates_def
      new_events_def GetCertificate_calls_def sample_defs lib_defs)

text \<open>
  Claim C1, amended: on every tick, whatever happened before, the routine of the first copy
  calls \<open>GetCertificate\<close> with \<open>ServerName\<close> equal to the configured domain once to read the
  certificate in use, and a second time exactly when \<open>shouldRenew\<close> answers that a renewal
  is due; the routine of the second copy calls it exactly once. No other certificate
  request is made.
\<close>

theorem renewalRoutine_GetCertificate_calls:
  assumes "certManager self = Some m"
  shows "GetCertificate_calls (new_events w (snd (renewalRoutine_body self w))) =
           replicate (if fst (shouldRenew self w) = Returns (True, None) then 2 else 1)
             (Ev_GetCertificate m \<lparr>ServerName = domain self\<rparr>)
       \<and> GetCertificate_calls (new_events w (renewalRoutine_body_copy2 self w)) =
           [Ev_GetCertificate m \<lparr>ServerName = domain self\<rparr>]"
proof
  let ?g = "Ev_GetCertificate m \<lparr>ServerName = domain self\<rparr>"
  obtain r w1 where sr: "shouldRenew self w = (r, w1)"
    by (cases "shouldRenew self w")
  have e1: "events w1 = events w @ [?g]"
    using shouldRenew_events [OF assms, of w] sr by simp
  obtain e w2 where rc: "renewCertificates self w1 = (e, w2)"
    by (cases "renewCertificates self w1")
  have e2: "events w2 = events w @ [?g, ?g]"
    using renewCertificates_events [OF assms, of w1] rc e1 by simp
  show "GetCertificate_calls (new_events w (snd (renewalRoutine_body self w))) =
           replicate (if fst (shouldRenew self w) = Returns (True, None) then 2 else 1) ?g"
    using sr rc e1 e2
    by (auto simp: renewalRoutine_body_def GetCertificate_calls_def events_logf numeral_2_eq_2
        new_events_def split: outcome.splits option.splits)
  obtain e' w3 where rc': "renewCertificates self w = (e', w3)"
    by (cases "renewCertificates self w")
  have e3: "events w3 = events w @ [?g]"
    using renewCertificates_events [OF assms, of w] rc' by simp
  show "GetCertificate_calls (new_events w (renewalRoutine_body_copy2 self w)) = [?g]"
    using rc' e3
    by (auto simp: renewalRoutine_body_copy2_def GetCertificate_calls_def fmt_Printf_def emit_def
        new_events_def split: option.splits)
qed

theorem renewalRoutine_GetCertificate_calls_witness:
  "certManager sample_TLSListener = Some sample_Manager
   \<and> GetCertificate_calls
        (new_events world_fresh (snd (renewalRoutine_body sample_TLSListener world_fresh))) =
       [Ev_GetCertificate sample_Manager \<lparr>ServerName = ''example.com''\<rparr>]
   \<and> GetCertificate_calls
        (new_events world_aged (snd (renewalRoutine_body sample_TLSListener world_aged))) =
       [Ev_GetCertificate sample_Manager \<lparr>ServerName = ''example.com''\<rparr>,
        Ev_GetCertificate sample_Manager \<lparr>ServerName = ''example.com''\<rparr>]
   \<and> GetCertificate_calls
        (new_events world_failing (renewalRoutine_body_copy2 sample_TLSListener world_failing)) =
       [Ev_GetCertificate sample_Manager \<lparr>ServerName = ''example.com''\<rparr>]"
proof -
  have m: "certManager sample_TLSListener = Some sample_Manager"
    by (simp add: sample_TLSListener_def)
  have d: "domain sample_TLSListener = ''example.com''"
    by (simp add: sample_TLSListener_def)
  have fresh: "fst (shouldRenew sample_TLSListener world_fresh) = Returns (False, None)"
    by (simp add: shouldRenew_def getCertInfo_def sample_defs lib_defs)
  have aged: "fst (shouldRenew sample_TLSListener world_aged) = Returns (True, None)"
    by (simp add: shouldRenew_def getCertInfo_def sample_defs lib_defs)
  show ?thesis
    using renewalRoutine_GetCertificate_calls [OF m, of world_fresh]
      renewalRoutine_GetCertificate_calls [OF m, of world_aged]
      renewalRoutine_GetCertificate_calls [OF m, of world_failing]
    by (simp add: m d fresh aged numeral_2_eq_2)
qed

subsection \<open>Construction\<close>

lemma setup_tl_events:
  "\<exists>es. events (snd (setup_tl self base w)) = events w @ Ev_setup # es"
  by (auto simp: setup_tl_def Let_def tls_Listen_def emit_def split: option.splits sum.splits)

lemma setup_tl_success:
  assumes "setup_tl self base w = ((None, self'), w')"
  shows "certManager self' = Some \<lparr>Cache = DirCache (certDir self), Prompt = AcceptTOS,
            Email = email self, HostPolicy = HostWhitelist (allowedDomains self)\<rparr>"
  using assms
  by (auto simp: setup_tl_def Let_def split: option.splits sum.splits prod.splits)

lemma New_success:
  assumes "New cfg w = ((Some self, None), w')"
  shows "certManager self = Some \<lparr>Cache = DirCache (cfg_CertDir cfg), Prompt = AcceptTOS,
            Email = cfg_Email cfg,
            HostPolicy = HostWhitelist (cfg_Domain cfg # cfg_AllowedDomains cfg)\<rparr>"
proof -
  let ?self = "\<lparr>listener = None, certManager = None, domain = cfg_Domain cfg,
                   certDir = cfg_CertDir cfg, email = cfg_Email cfg,
                   allowedDomains = [cfg_Domain cfg] @ cfg_AllowedDomains cfg\<rparr>"
  from assms have "\<exists>w1. setup_tl ?self (cfg_BaseListener cfg) w = ((None, self), w1)"
    by (auto simp: New_def Let_def split: if_splits prod.splits option.splits)
  then obtain w1 where "setup_tl ?self (cfg_BaseListener cfg) w = ((None, self), w1)" ..
  from setup_tl_success [OF this] show ?thesis by simp
qed

text \<open>
  The two trace events of construction mean what they say: a configuration with both
  required fields reaches \<open>setup\<close>, and a successful \<open>New\<close> has started the goroutine.
\<close>

lemma New_runs_setup:
  assumes "cfg_Domain cfg \<noteq> []" and "cfg_CertDir cfg \<noteq> []"
  shows "Ev_setup \<in> set (new_events w (snd (New cfg w)))"
proof -
  let ?self = "\<lparr>listener = None, certManager = None, domain = cfg_Domain cfg,
                   certDir = cfg_CertDir cfg, email = cfg_Email cfg,
                   allowedDomains = [cfg_Domain cfg] @ cfg_AllowedDomains cfg\<rparr>"
  obtain es where "events (snd (setup_tl ?self (cfg_BaseListener cfg) w)) = events w @ Ev_setup # es"
    using setup_tl_events by blast
  then show ?thesis using assms
    by (auto simp: New_def new_events_def emit_def Let_def split: prod.splits option.splits)
qed

lemma New_starts_goroutine:
  assumes "New cfg w = ((Some self, None), w')"
  shows "Ev_go_renewalRoutine \<in> set (new_events w w')"
proof -
  let ?self = "\<lparr>listener = None, certManager = None, domain = cfg_Domain cfg,
                   certDir = cfg_CertDir cfg, email = cfg_Email cfg,
                   allowedDomains = [cfg_Domain cfg] @ cfg_AllowedDomains cfg\<rparr>"
  obtain es where "events (snd (setup_tl ?self (cfg_BaseListener cfg) w)) = events w @ Ev_setup # es"
    using setup_tl_events by blast
  then show ?thesis using assms
    by (auto simp: New_def new_events_def emit_def Let_def
        split: prod.splits option.splits if_splits)
qed

text \<open>
  Claim C2: for every configuration whose \<open>Domain\<close> or whose \<open>CertDir\<close> is the empty string,
  \<open>New\<close> returns a nil listener and a configuration error (\<open>domain is required\<close>, or
  \<open>certificate directory is required\<close> when only the directory is missing), and leaves the
  environment as it was: \<open>setup\<close> is not entered and the renewal goroutine is not started.
\<close>

theorem New_rejects_empty_Domain_or_CertDir:
  assumes "cfg_Domain cfg = [] \<or> cfg_CertDir cfg = []"
  shows "fst (fst (New cfg w)) = None
       \<and> snd (fst (New cfg w)) =
           Some (errors_New (if cfg_Domain cfg = [] then ''domain is required''
                             else ''certificate directory is required''))
       \<and> snd (New cfg w) = w
       \<and> Ev_setup \<notin> set (new_events w (snd (New cfg w)))
       \<and> Ev_go_renewalRoutine \<notin> set (new_events w (snd (New cfg w)))"
  using assms by (auto simp: New_def new_events_def)

theorem New_rejects_empty_Domain_or_CertDir_witness:
  "cfg_CertDir (sample_Config\<lparr>cfg_CertDir := []\<rparr>) = []
   \<and> New (sample_Config\<lparr>cfg_CertDir := []\<rparr>) world_aged =
       ((None, Some (errors_New ''certificate directory is required'')), world_aged)
   \<and> cfg_Domain (sample_Config\<lparr>cfg_Domain := []\<rparr>) = []
   \<and> New (sample_Config\<lparr>cfg_Domain := []\<rparr>) world_failing =
       ((None, Some (errors_New ''domain is required'')), world_failing)
   \<and> Ev_setup \<notin> set (new_events world_failing
                        (snd (New (sample_Config\<lparr>cfg_Domain := []\<rparr>) world_failing)))
   \<and> Ev_go_renewalRoutine \<notin> set (new_events world_failing
                        (snd (New (sample_Config\<lparr>cfg_Domain := []\<rparr>) world_failing)))"
proof -
  have d: "cfg_Domain (sample_Config\<lparr>cfg_Domain := []\<rparr>) = []"
    by simp
  have c: "cfg_CertDir (sample_Config\<lparr>cfg_CertDir := []\<rparr>) = []"
    by simp
  have nd: "cfg_Domain (sample_Config\<lparr>cfg_CertDir := []\<rparr>) \<noteq> []"
    by (simp add: sample_Config_def)
  from New_rejects_empty_Domain_or_CertDir [of "sample_Config\<lparr>cfg_Domain := []\<rparr>" world_failing]
  have 1: "New (sample_Config\<lparr>cfg_Domain := []\<rparr>) world_failing =
             ((None, Some (errors_New ''domain is required'')), world_failing)
           \<and> Ev_setup \<notin> set (new_events world_failing
                        (snd (New (sample_Config\<lparr>cfg_Domain := []\<rparr>) world_failing)))
           \<and> Ev_go_renewalRoutine \<notin> set (new_events world_failing
                        (snd (New (sample_Config\<lparr>cfg_Domain := []\<rparr>) world_failing)))"
    using d by (simp add: prod_eq_iff new_events_def)
  from New_rejects_empty_Domain_or_CertDir [of "sample_Config\<lparr>cfg_CertDir := []\<rparr>" world_aged]
  have 2: "New (sample_Config\<lparr>cfg_CertDir := []\<rparr>) world_aged =
             ((None, Some (errors_New ''certificate directory is required'')), world_aged)"
    using c nd by (simp add: prod_eq_iff)
  from 1 2 c d show ?thesis by blast
qed

lemma whitelist_set:
  "set (whitelist toASCII hosts) = {a. \<exists>h \<in> set hosts. toASCII h = Inr a}"
  by (induction hosts) (auto split: sum.splits)

lemma whitelist_fixed:
  "(\<And>h. h \<in> set hosts \<Longrightarrow> toASCII h = Inr h) \<Longrightarrow> whitelist toASCII hosts = hosts"
  by (induction hosts) simp_all

text \<open>
  Claim C4, as the specification states it: the host policy of the manager accepts exactly
  the configured names, the primary domain and the additional allowed domains, and no other
  host. With the primary domain written \<open>Example.COM\<close> construction succeeds, the policy
  refuses the configured name \<open>Example.COM\<close> and allows \<open>example.com\<close>, which is not among
  the configured names.
\<close>

theorem New_HostPolicy_exact_counterexample:
  "snd (fst (New (sample_Config\<lparr>cfg_Domain := ''Example.COM''\<rparr>) world_aged)) = None
   \<and> map_option certManager (fst (fst (New (sample_Config\<lparr>cfg_Domain := ''Example.COM''\<rparr>) world_aged)))
       = Some (Some (sample_Manager\<lparr>HostPolicy := HostWhitelist [''Example.COM'', ''www.example.com'']\<rparr>))
   \<and> idna_ToASCII world_aged ''Example.COM'' = Inr ''example.com''
   \<and> \<not> HostPolicy_allows (idna_ToASCII world_aged)
           (HostWhitelist [''Example.COM'', ''www.example.com'']) ''Example.COM''
   \<and> HostPolicy_allows (idna_ToASCII world_aged)
           (HostWhitelist [''Example.COM'', ''www.example.com'']) ''example.com''
   \<and> ''example.com'' \<notin> set [''Example.COM'', ''www.example.com'']"
  by (simp add: New_def setup_tl_def Let_def sample_defs lib_defs sample_ToASCII_def is_ldh_def
      ascii_lower_def)

text \<open>
  Claim C4, amended: a successful construction has built the manager with the host policy
  \<open>autocert.HostWhitelist\<close> of the primary domain followed by the additional allowed domains.
  That policy allows a host exactly when the host is the \<open>idna.Lookup.ToASCII\<close> form of one of
  those names (a name that \<open>ToASCII\<close> refuses allows nothing). When every configured name is
  its own \<open>ToASCII\<close> form, the policy allows exactly the configured names and no other host.
\<close>

theorem New_HostPolicy:
  assumes "New cfg w = ((Some self, None), w')"
  shows "\<exists>m. certManager self = Some m
           \<and> HostPolicy m = HostWhitelist (cfg_Domain cfg # cfg_AllowedDomains cfg)
           \<and> (\<forall>toASCII host. HostPolicy_allows toASCII (HostPolicy m) host
                 = (\<exists>d \<in> set (cfg_Domain cfg # cfg_AllowedDomains cfg). toASCII d = Inr host))
           \<and> (\<forall>toASCII. (\<forall>d \<in> set (cfg_Domain cfg # cfg_AllowedDomains cfg). toASCII d = Inr d) \<longrightarrow>
                (\<forall>host. HostPolicy_allows toASCII (HostPolicy m) host
                   = (host = cfg_Domain cfg \<or> host \<in> set (cfg_AllowedDomains cfg))))"
proof -
  let ?hosts = "cfg_Domain cfg # cfg_AllowedDomains cfg"
  let ?m = "\<lparr>Cache = DirCache (cfg_CertDir cfg), Prompt = AcceptTOS, Email = cfg_Email cfg,
             HostPolicy = HostWhitelist ?hosts\<rparr>"
  have m: "certManager self = Some ?m"
    using New_success [OF assms] .
  have a: "HostPolicy_allows toASCII (HostWhitelist ?hosts) host
             = (\<exists>d \<in> set ?hosts. toASCII d = Inr host)" for toASCII host
    by (simp only: HostPolicy_allows.simps whitelist_set mem_Collect_eq)
  have b: "HostPolicy_allows toASCII (HostWhitelist ?hosts) host
             = (host = cfg_Domain cfg \<or> host \<in> set (cfg_AllowedDomains cfg))"
    if "\<forall>d \<in> set ?hosts. toASCII d = Inr d" for toASCII host
  proof -
    from that have "whitelist toASCII ?hosts = ?hosts"
      by (intro whitelist_fixed) blast
    then show ?thesis
      by (simp only: HostPolicy_allows.simps) simp
  qed
  from m a b show ?thesis by simp
qed

theorem New_HostPolicy_witness:
  "fst (New sample_Config world_aged) = (Some sample_TLSListener, None)
   \<and> idna_ToASCII world_aged ''example.com'' = Inr ''example.com''
   \<and> idna_ToASCII world_aged ''www.example.com'' = Inr ''www.example.com''
   \<and> (\<exists>m. certManager sample_TLSListener = Some m
         \<and> HostPolicy m = HostWhitelist [''example.com'', ''www.example.com'']
         \<and> HostPolicy_allows (idna_ToASCII world_aged) (HostPolicy m) ''example.com''
         \<and> HostPolicy_allows (idna_ToASCII world_aged) (HostPolicy m) ''www.example.com''
         \<and> \<not> HostPolicy_allows (idna_ToASCII world_aged) (HostPolicy m) ''example.org'')"
proof -
  let ?t = "idna_ToASCII world_aged"
  have n: "fst (New sample_Config world_aged) = (Some sample_TLSListener, None)"
    by (simp add: New_def setup_tl_def Let_def sample_defs lib_defs)
  then have "New sample_Config world_aged =
      ((Some sample_TLSListener, None), snd (New sample_Config world_aged))"
    by (simp add: prod_eq_iff)
  from New_HostPolicy [OF this] obtain m where
    m: "certManager sample_TLSListener = Some m"
       "HostPolicy m = HostWhitelist (cfg_Domain sample_Config # cfg_AllowedDomains sample_Config)"
       "\<forall>toASCII. (\<forall>d \<in> set (cfg_Domain sample_Config # cfg_AllowedDomains sample_Config).
                      toASCII d = Inr d) \<longrightarrow>
          (\<forall>host. HostPolicy_allows toASCII (HostPolicy m) host
             = (host = cfg_Domain sample_Config \<or> host \<in> set (cfg_AllowedDomains sample_Config)))"
    by blast
  have t1: "?t ''example.com'' = Inr ''example.com''"
    by (simp add: world_aged_def sample_ToASCII_def is_ldh_def ascii_lower_def)
  have t2: "?t ''www.example.com'' = Inr ''www.example.com''"
    by (simp add: world_aged_def sample_ToASCII_def is_ldh_def ascii_lower_def)
  from t1 t2 have fixed: "\<forall>d \<in> set (cfg_Domain sample_Config # cfg_AllowedDomains sample_Config).
      ?t d = Inr d"
    by (simp add: sample_Config_def)
  from m(3) fixed have allows: "\<forall>host. HostPolicy_allows ?t (HostPolicy m) host
      = (host = cfg_Domain sample_Config \<or> host \<in> set (cfg_AllowedDomains sample_Config))"
    by blast
  from m(2) have p: "HostPolicy m = HostWhitelist [''example.com'', ''www.example.com'']"
    by (simp add: sample_Config_def)
  from allows have "HostPolicy_allows ?t (HostPolicy m) ''example.com''"
    and "HostPolicy_allows ?t (HostPolicy m) ''www.example.com''"
    and "\<not> HostPolicy_allows ?t (HostPolicy m) ''example.org''"
    by (simp_all add: sample_Config_def)
  with n t1 t2 m(1) p show ?thesis by blast
qed

text \<open>
  Claim C5: after every successful \<open>setup\<close> the listener installed is a TLS listener whose
  configuration is the one the manager's \<open>TLSConfig\<close> returned, with \<open>MinVersion\<close> set to
  TLS 1.2 (\<open>0x0303\<close>). Without a base listener it is that configuration with which
  \<open>tls.Listen\<close> was asked to bind \<open>tcp\<close>, \<open>:443\<close>; with a base listener it wraps that listener.
\<close>

theorem setup_tl_MinVersion:
  assumes "setup_tl self base w = ((None, self'), w')"
  shows "\<exists>m inner. certManager self' = Some m
           \<and> listener self' =
               Some (tls_Listener inner ((TLSConfig w m)\<lparr>MinVersion := VersionTLS12\<rparr>))
           \<and> MinVersion ((TLSConfig w m)\<lparr>MinVersion := VersionTLS12\<rparr>) = 0x0303
           \<and> (case base of
                Some b \<Rightarrow> inner = b
              | None \<Rightarrow> bind w (events w @ [Ev_setup]) ''tcp'' '':443''
                          ((TLSConfig w m)\<lparr>MinVersion := VersionTLS12\<rparr>) = Inr inner)"
  using assms
  by (auto simp: setup_tl_def Let_def tls_Listen_def tls_NewListener_def emit_def VersionTLS12_def
      split: option.splits sum.splits prod.splits)

theorem setup_tl_MinVersion_witness:
  "fst (setup_tl (sample_TLSListener\<lparr>listener := None, certManager := None\<rparr>) None world_aged)
     = (None, sample_TLSListener)
   \<and> fst (fst (setup_tl (sample_TLSListener\<lparr>listener := None, certManager := None\<rparr>)
                 (Some (net_Listener 3)) world_failing)) = None
   \<and> (\<exists>m. certManager sample_TLSListener = Some m
         \<and> listener sample_TLSListener =
             Some (tls_Listener (net_Listener 7)
                    ((TLSConfig world_aged m)\<lparr>MinVersion := VersionTLS12\<rparr>)))
   \<and> (\<exists>m. listener (snd (fst (setup_tl (sample_TLSListener\<lparr>listener := None, certManager := None\<rparr>)
                 (Some (net_Listener 3)) world_failing))) =
             Some (tls_Listener (net_Listener 3)
                    ((TLSConfig world_failing m)\<lparr>MinVersion := 0x0303\<rparr>)))"
proof -
  let ?s0 = "sample_TLSListener\<lparr>listener := None, certManager := None\<rparr>"
  let ?r = "setup_tl ?s0 (Some (net_Listener 3)) world_failing"
  have a: "fst (setup_tl ?s0 None world_aged) = (None, sample_TLSListener)"
    by (simp add: setup_tl_def Let_def sample_defs lib_defs)
  then have a': "setup_tl ?s0 None world_aged =
      ((None, sample_TLSListener), snd (setup_tl ?s0 None world_aged))"
    by (simp add: prod_eq_iff)
  have b: "fst (fst ?r) = None"
    by (simp add: setup_tl_def Let_def sample_defs lib_defs)
  then have b': "?r = ((None, snd (fst ?r)), snd ?r)"
    by (simp add: prod_eq_iff)
  from setup_tl_MinVersion [OF a'] have 1:
    "\<exists>m. certManager sample_TLSListener = Some m
         \<and> listener sample_TLSListener =
             Some (tls_Listener (net_Listener 7)
                    ((TLSConfig world_aged m)\<lparr>MinVersion := VersionTLS12\<rparr>))"
    by (auto simp: sample_defs)
  from setup_tl_MinVersion [OF b'] have 2:
    "\<exists>m. listener (snd (fst ?r)) =
             Some (tls_Listener (net_Listener 3)
                    ((TLSConfig world_failing m)\<lparr>MinVersion := 0x0303\<rparr>))"
    by (auto simp: VersionTLS12_def)
  from a b 1 2 show ?thesis by blast
qed

subsection \<open>Closing\<close>

lemma Close_listener: "listener (snd (fst (Close self w))) = None"
  by (simp add: Close_def split: option.splits prod.splits)

lemma step_listener_None:
  "listener self = None \<Longrightarrow> step c self w = (Returns self', w') \<Longrightarrow> listener self' = None"
  by (cases c) (auto simp: Close_def split: prod.splits outcome.splits)

lemma run_listener_None:
  "listener self = None \<Longrightarrow> listener (fst (run cs self w)) = None"
proof (induction cs arbitrary: self w)
  case Nil
  then show ?case by simp
next
  case (Cons c cs)
  obtain r w' where s: "step c self w = (r, w')"
    by (cases "step c self w")
  show ?case
  proof (cases r)
    case (Returns self')
    with s Cons.prems have "listener self' = None"
      by (blast dest: step_listener_None)
    with Cons.IH s Returns show ?thesis by simp
  next
    case Panics
    with s Cons.prems show ?thesis by simp
  qed
qed

text \<open>
  Claim C3: once \<open>Close\<close> has been called on a listener, then after any further history of
  calls, and whatever the environment does, \<open>Accept\<close> returns a nil connection and the error
  \<open>listener is closed\<close>, and another \<open>Close\<close> returns nil (and changes nothing).
\<close>

theorem Accept_after_Close:
  assumes "Close self w = ((err, closed), w')"
      and "run cs closed w1 = (later, w2)"
  shows "Accept later w3 = ((None, Some (errors_New ''listener is closed'')), w3)
       \<and> Close later w3 = ((None, later), w3)"
proof -
  have "listener closed = None"
    using Close_listener [of self w] assms(1) by simp
  then have "listener later = None"
    using run_listener_None [of closed cs w1] assms(2) by simp
  then show ?thesis by (simp add: Accept_def Close_def)
qed

theorem Accept_after_Close_witness:
  "fst (fst (Close sample_TLSListener world_aged)) = None
   \<and> Accept (fst (run [Call_Addr, Call_renewalTick, Call_Close, Call_Accept]
                  (snd (fst (Close sample_TLSListener world_aged)))
                  (snd (Close sample_TLSListener world_aged)))) world_fresh
       = ((None, Some (errors_New ''listener is closed'')), world_fresh)
   \<and> fst (fst (Close (fst (run [Call_Addr, Call_renewalTick, Call_Close, Call_Accept]
                  (snd (fst (Close sample_TLSListener world_aged)))
                  (snd (Close sample_TLSListener world_aged)))) world_fresh)) = None"
proof -
  let ?c = "Close sample_TLSListener world_aged"
  let ?r = "run [Call_Addr, Call_renewalTick, Call_Close, Call_Accept] (snd (fst ?c)) (snd ?c)"
  have c: "?c = ((fst (fst ?c), snd (fst ?c)), snd ?c)"
    by simp
  have r: "?r = (fst ?r, snd ?r)"
    by simp
  have ok: "fst (fst ?c) = None"
    by (simp add: Close_def sample_defs lib_defs)
  from Accept_after_Close [OF c r, of world_fresh] ok show ?thesis
    by simp
qed

text \<open>
  Claim C7: once \<open>Close\<close> has been called on a listener, then after any further history of
  calls \<open>Addr\<close> returns nil, without asking the underlying listener.
\<close>

theorem Addr_after_Close:
  assumes "Close self w = ((err, closed), w')"
      and "run cs closed w1 = (later, w2)"
  shows "Addr_of later w3 = (None, w3)"
proof -
  have "listener closed = None"
    using Close_listener [of self w] assms(1) by simp
  then have "listener later = None"
    using run_listener_None [of closed cs w1] assms(2) by simp
  then show ?thesis by (simp add: Addr_of_def)
qed

theorem Addr_after_Close_witness:
  "fst (Addr_of sample_TLSListener world_aged) = Some (Addr ''tcp'' ''[::]:443'')
   \<and> Addr_of (snd (fst (Close sample_TLSListener world_aged))) world_aged = (None, world_aged)
   \<and> Addr_of (fst (run [Call_Accept, Call_getCertInfo, Call_Close]
                  (snd (fst (Close sample_TLSListener world_aged)))
                  (snd (Close sample_TLSListener world_aged)))) world_aged = (None, world_aged)"
proof -
  let ?c = "Close sample_TLSListener world_aged"
  let ?r = "run [Call_Accept, Call_getCertInfo, Call_Close] (snd (fst ?c)) (snd ?c)"
  have c: "?c = ((fst (fst ?c), snd (fst ?c)), snd ?c)"
    by simp
  have r0: "run [] (snd (fst ?c)) (snd ?c) = (snd (fst ?c), snd ?c)"
    by simp
  have r: "?r = (fst ?r, snd ?r)"
    by simp
  have before: "fst (Addr_of sample_TLSListener world_aged) = Some (Addr ''tcp'' ''[::]:443'')"
    by (simp add: Addr_of_def sample_defs lib_defs)
  from Addr_after_Close [OF c r0, of world_aged] Addr_after_Close [OF c r, of world_aged] before
  show ?thesis by simp
qed

text \<open>
  Claim C10: \<open>Close\<close> on an open listener sets the handle to nil whatever the underlying
  \<open>Close\<close> answers, and returns that answer (the error, if there is one) to the caller.
  On the listener it leaves, \<open>Accept\<close> fails with \<open>listener is closed\<close>, \<open>Addr\<close> returns nil
  and a second \<open>Close\<close> returns nil.
\<close>

theorem Close_nils_listener_on_error:
  assumes "listener self = Some l"
  shows "Close self w =
           ((close_answer w (events w) l, self\<lparr>listener := None\<rparr>), emit (Ev_Close l) w)
       \<and> Accept (self\<lparr>listener := None\<rparr>) w1 =
           ((None, Some (errors_New ''listener is closed'')), w1)
       \<and> Addr_of (self\<lparr>listener := None\<rparr>) w2 = (None, w2)
       \<and> Close (self\<lparr>listener := None\<rparr>) w3 = ((None, self\<lparr>listener := None\<rparr>), w3)"
  using assms by (simp add: Close_def Accept_def Addr_of_def Listener_Close_def)

theorem Close_nils_listener_on_error_witness:
  "fst (Close sample_TLSListener world_failing) =
     (Some (lib_error ''use of closed network connection''), sample_TLSListener\<lparr>listener := None\<rparr>)
   \<and> Accept (sample_TLSListener\<lparr>listener := None\<rparr>) world_failing =
       ((None, Some (errors_New ''listener is closed'')), world_failing)
   \<and> Addr_of (sample_TLSListener\<lparr>listener := None\<rparr>) world_failing = (None, world_failing)
   \<and> Close (sample_TLSListener\<lparr>listener := None\<rparr>) world_failing =
       ((None, sample_TLSListener\<lparr>listener := None\<rparr>), world_failing)"
proof -
  have l: "listener sample_TLSListener =
      Some (tls_Listener (net_Listener 7)
             ((sample_TLSConfig sample_Manager)\<lparr>MinVersion := VersionTLS12\<rparr>))"
    by (simp add: sample_TLSListener_def)
  have a: "close_answer world_failing (events world_failing)
             (tls_Listener (net_Listener 7)
               ((sample_TLSConfig sample_Manager)\<lparr>MinVersion := VersionTLS12\<rparr>))
           = Some (lib_error ''use of closed network connection'')"
    by (simp add: world_failing_def)
  from Close_nils_listener_on_error [OF l, of world_failing world_failing world_failing world_failing] a
  show ?thesis by simp
qed

subsection \<open>The certificate manager handle\<close>

lemma step_certManager:
  "step c self w = (Returns self', w') \<Longrightarrow> certManager self' = certManager self"
  by (cases c) (auto simp: Close_def split: prod.splits outcome.splits option.splits)

lemma run_certManager: "certManager (fst (run cs self w)) = certManager self"
proof (induction cs arbitrary: self w)
  case Nil
  then show ?case by simp
next
  case (Cons c cs)
  obtain r w' where s: "step c self w = (r, w')"
    by (cases "step c self w")
  show ?case
  proof (cases r)
    case (Returns self')
    with s have "certManager self' = certManager self"
      by (blast dest: step_certManager)
    with Cons.IH [of self' w'] s Returns show ?thesis by simp
  next
    case Panics
    with s show ?thesis by simp
  qed
qed

text \<open>
  Claim C6: the listener that \<open>New\<close> returns holds the manager that \<open>setup\<close> built, and after
  every history of \<open>Accept\<close>, \<open>Close\<close>, \<open>Addr\<close>, \<open>getCertInfo\<close>, \<open>shouldRenew\<close>,
  \<open>renewCertificates\<close> and ticks of either renewal routine, in any environment, the
  \<open>certManager\<close> field still holds that manager.
\<close>

theorem certManager_never_changes:
  assumes "New cfg w = ((Some self, None), w')"
  shows "certManager self = Some \<lparr>Cache = DirCache (cfg_CertDir cfg), Prompt = AcceptTOS,
            Email = cfg_Email cfg,
            HostPolicy = HostWhitelist (cfg_Domain cfg # cfg_AllowedDomains cfg)\<rparr>
       \<and> (\<forall>cs w1. certManager (fst (run cs self w1)) = certManager self)"
  using New_success [OF assms] run_certManager by simp

theorem certManager_never_changes_witness:
  "fst (New sample_Config world_aged) = (Some sample_TLSListener, None)
   \<and> certManager sample_TLSListener = Some sample_Manager
   \<and> certManager (fst (run [Call_Accept, Call_renewalTick, Call_Close, Call_renewCertificates,
                              Call_Addr, Call_renewalTick_copy2, Call_Close]
                         sample_TLSListener world_failing)) = Some sample_Manager"
proof -
  have n: "fst (New sample_Config world_aged) = (Some sample_TLSListener, None)"
    by (simp add: New_def setup_tl_def Let_def sample_defs lib_defs)
  then have "New sample_Config world_aged =
      ((Some sample_TLSListener, None), snd (New sample_Config world_aged))"
    by (simp add: prod_eq_iff)
  from certManager_never_changes [OF this] have
    m: "certManager sample_TLSListener = Some \<lparr>Cache = DirCache (cfg_CertDir sample_Config),
            Prompt = AcceptTOS, Email = cfg_Email sample_Config,
            HostPolicy = HostWhitelist (cfg_Domain sample_Config # cfg_AllowedDomains sample_Config)\<rparr>"
    and r: "\<And>cs w1. certManager (fst (run cs sample_TLSListener w1)) = certManager sample_TLSListener"
    by blast+
  from m have 1: "certManager sample_TLSListener = Some sample_Manager"
    by (simp add: sample_Config_def sample_Manager_def)
  have 2: "certManager (fst (run [Call_Accept, Call_renewalTick, Call_Close, Call_renewCertificates,
                              Call_Addr, Call_renewalTick_copy2, Call_Close]
                         sample_TLSListener world_failing)) = Some sample_Manager"
    using r 1 by (simp only:)
  from n 1 2 show ?thesis by blast
qed

subsection \<open>The renewal decision\<close>

lemma shouldRenew_decision:
  assumes "getCertInfo self w = (Returns (Some info, None), w1)"
  shows "shouldRenew self w =
           (Returns (NotBefore info \<le> AddDate w1 (time_Now w1) 0 (- 2) 0, None), w1)"
  using assms by (auto simp: shouldRenew_def Let_def Time_After_def)

text \<open>
  Claim C9: \<open>shouldRenew\<close> returns true if and only if \<open>getCertInfo\<close> delivered the timing of
  the certificate in use and its \<open>NotBefore\<close> is not after \<open>now.AddDate(0, -2, 0)\<close>, the
  instant two months before now; with a certificate at hand the answer is that comparison
  and nothing else. The comparison with \<open>NotAfter\<close> has no effect: whatever \<open>NotAfter\<close> the
  parsed certificate carries, \<open>shouldRenew\<close> returns the same.
\<close>

theorem shouldRenew_iff_two_months_old:
  "(\<exists>e. fst (shouldRenew self w) = Returns (True, e))
     = (\<exists>info. fst (getCertInfo self w) = Returns (Some info, None)
           \<and> NotBefore info
               \<le> AddDate (snd (getCertInfo self w)) (time_Now (snd (getCertInfo self w))) 0 (- 2) 0)
   \<and> (\<forall>info. fst (getCertInfo self w) = Returns (Some info, None) \<longrightarrow>
         fst (shouldRenew self w)
           = Returns (NotBefore info
               \<le> AddDate (snd (getCertInfo self w)) (time_Now (snd (getCertInfo self w))) 0 (- 2) 0,
               None))
   \<and> fst (shouldRenew self
          (w\<lparr>x509_ParseCertificate :=
               (\<lambda>der. map_sum id (\<lambda>leaf. leaf\<lparr>leaf_NotAfter := f leaf\<rparr>)
                        (x509_ParseCertificate w der))\<rparr>))
       = fst (shouldRenew self w)"
proof (intro conjI)
  obtain r w1 where g: "getCertInfo self w = (r, w1)"
    by (cases "getCertInfo self w")
  show "(\<exists>e. fst (shouldRenew self w) = Returns (True, e))
     = (\<exists>info. fst (getCertInfo self w) = Returns (Some info, None)
           \<and> NotBefore info
               \<le> AddDate (snd (getCertInfo self w)) (time_Now (snd (getCertInfo self w))) 0 (- 2) 0)"
    using g
    by (auto simp: shouldRenew_def Let_def Time_After_def split: outcome.splits option.splits)
  show "\<forall>info. fst (getCertInfo self w) = Returns (Some info, None) \<longrightarrow>
         fst (shouldRenew self w)
           = Returns (NotBefore info
               \<le> AddDate (snd (getCertInfo self w)) (time_Now (snd (getCertInfo self w))) 0 (- 2) 0,
               None)"
    using g shouldRenew_decision [of self w _ w1] by auto
  show "fst (shouldRenew self
          (w\<lparr>x509_ParseCertificate :=
               (\<lambda>der. map_sum id (\<lambda>leaf. leaf\<lparr>leaf_NotAfter := f leaf\<rparr>)
                        (x509_ParseCertificate w der))\<rparr>))
       = fst (shouldRenew self w)"
    by (cases "certManager self")
       (auto simp: shouldRenew_def getCertInfo_def Manager_GetCertificate_def emit_def Let_def
          time_Now_def Time_After_def
          split: sum.splits list.splits)
qed

theorem shouldRenew_iff_two_months_old_witness:
  "fst (shouldRenew sample_TLSListener world_aged) = Returns (True, None)
   \<and> fst (shouldRenew sample_TLSListener world_fresh) = Returns (False, None)
   \<and> fst (shouldRenew sample_TLSListener
          (world_aged\<lparr>x509_ParseCertificate :=
               (\<lambda>der. map_sum id (\<lambda>leaf. leaf\<lparr>leaf_NotAfter := 100000\<rparr>)
                        (x509_ParseCertificate world_aged der))\<rparr>)) = Returns (True, None)"
proof -
  let ?i = "\<lparr>NotBefore = 0, NotAfter = 90\<rparr>"
  have ga: "fst (getCertInfo sample_TLSListener world_aged) = Returns (Some ?i, None)"
    by (simp add: getCertInfo_def sample_defs lib_defs)
  have gf: "fst (getCertInfo sample_TLSListener world_fresh) = Returns (Some ?i, None)"
    by (simp add: getCertInfo_def sample_defs lib_defs)
  have ta: "AddDate (snd (getCertInfo sample_TLSListener world_aged))
              (time_Now (snd (getCertInfo sample_TLSListener world_aged))) 0 (- 2) 0 = 40"
    by (simp add: getCertInfo_def sample_defs lib_defs)
  have tf: "AddDate (snd (getCertInfo sample_TLSListener world_fresh))
              (time_Now (snd (getCertInfo sample_TLSListener world_fresh))) 0 (- 2) 0 = - 50"
    by (simp add: getCertInfo_def sample_defs lib_defs)
  from shouldRenew_iff_two_months_old [of sample_TLSListener world_aged "\<lambda>leaf. 100000"] ga ta
  have a: "fst (shouldRenew sample_TLSListener world_aged) = Returns (True, None)"
    and c: "fst (shouldRenew sample_TLSListener
          (world_aged\<lparr>x509_ParseCertificate :=
               (\<lambda>der. map_sum id (\<lambda>leaf. leaf\<lparr>leaf_NotAfter := 100000\<rparr>)
                        (x509_ParseCertificate world_aged der))\<rparr>)) = Returns (True, None)"
    by simp_all
  from shouldRenew_iff_two_months_old [of sample_TLSListener world_fresh "\<lambda>leaf. 0"] gf tf
  have b: "fst (shouldRenew sample_TLSListener world_fresh) = Returns (False, None)"
    by simp
  from a b c show ?thesis by blast
qed

subsection \<open>Errors in the renewal routine\<close>

text \<open>
  Over any number of ticks: the routine of the second copy is always waiting for the next
  tick, and so is the routine of the first copy as long as the manager never hands out a
  certificate with an empty chain (the one way a tick can panic). Errors never stop it.
\<close>

lemma renewalRoutine_body_answers:
  "certificate_answer (snd (renewalRoutine_body self w)) = certificate_answer w"
  by (auto simp: renewalRoutine_body_def shouldRenew_def getCertInfo_def renewCertificates_def
      Manager_GetCertificate_def emit_def logf_def fmt_Printf_def Let_def
      split: option.splits sum.splits list.splits)

lemma renewalRoutine_body_Panics:
  assumes "fst (renewalRoutine_body self w) = Panics"
  shows "\<exists>m c. certManager self = Some m
           \<and> certificate_answer w (events w) m \<lparr>ServerName = domain self\<rparr> = Inr c
           \<and> Certificate c = []"
  using assms
  by (auto simp: renewalRoutine_body_def shouldRenew_def getCertInfo_def renewCertificates_def
      Manager_GetCertificate_def Let_def
      split: option.splits sum.splits list.splits if_splits)

lemma renewalRoutine_ticks_running:
  assumes "\<And>h m hello c. certificate_answer w h m hello = Inr c \<Longrightarrow> Certificate c \<noteq> []"
  shows "fst (renewalRoutine_ticks self n w) = AwaitingTick"
  using assms
proof (induction n arbitrary: w)
  case 0
  then show ?case by simp
next
  case (Suc n)
  obtain r w' where b: "renewalRoutine_body self w = (r, w')"
    by (cases "renewalRoutine_body self w")
  have "r \<noteq> Panics"
    using renewalRoutine_body_Panics [of self w] b Suc.prems by auto
  then obtain u where r: "r = Returns u"
    by (cases r) auto
  have "certificate_answer w' = certificate_answer w"
    using renewalRoutine_body_answers [of self w] b by simp
  then have "fst (renewalRoutine_ticks self n w') = AwaitingTick"
    using Suc.IH [of w'] Suc.prems by simp
  then show ?case using b r by simp
qed

lemma renewalRoutine_running:
  assumes "\<And>h m hello c. certificate_answer w h m hello = Inr c \<Longrightarrow> Certificate c \<noteq> []"
  shows "fst (renewalRoutine self n w) = AwaitingTick"
  unfolding renewalRoutine_def
  by (rule renewalRoutine_ticks_running) (use assms in \<open>simp add: emit_def\<close>)

lemma renewalRoutine_copy2_running:
  "fst (renewalRoutine_copy2 self n w) = AwaitingTick"
proof -
  have "fst (renewalRoutine_ticks_copy2 self n w') = AwaitingTick" for w'
    by (induction n arbitrary: w') simp_all
  then show ?thesis by (simp add: renewalRoutine_copy2_def)
qed

text \<open>
  Claim C8: a tick in which the renewal check returns an error, or in which the check asks
  for a renewal and the renewal returns an error, ends normally. The error goes into one
  line of output and nowhere else; the tick gives the listener back as it was, and the loop
  goes on to the next tick from there. The same holds for the routine of the second copy
  when its renewal returns an error. So after any number of ticks, with errors in any of
  them, both routines are waiting for the next tick (for the first copy: as long as the
  manager hands out no certificate with an empty chain).
\<close>

theorem renewal_errors_logged_and_swallowed:
  "(shouldRenew self w = (Returns (b, Some err), w1) \<longrightarrow>
      renewalRoutine_body self w =
        (Returns (), logf ''Failed to check certificate renewal status: %v'' [Arg_error err] w1)
      \<and> fst (step Call_renewalTick self w) = Returns self
      \<and> renewalRoutine_ticks self (Suc n) w =
          renewalRoutine_ticks self n
            (logf ''Failed to check certificate renewal status: %v'' [Arg_error err] w1))
   \<and> (shouldRenew self w = (Returns (True, None), w1)
        \<and> renewCertificates self w1 = (Some err, w2) \<longrightarrow>
      renewalRoutine_body self w =
        (Returns (), logf ''Failed to renew certificates: %v'' [Arg_error err] w2)
      \<and> fst (step Call_renewalTick self w) = Returns self
      \<and> renewalRoutine_ticks self (Suc n) w =
          renewalRoutine_ticks self n (logf ''Failed to renew certificates: %v'' [Arg_error err] w2))
   \<and> (renewCertificates self w = (Some err, w1) \<longrightarrow>
      renewalRoutine_body_copy2 self w =
        fmt_Printf (''Failed to renew certificates: %v'' @ [CHR 0x0A]) [Arg_error err] w1
      \<and> fst (step Call_renewalTick_copy2 self w) = Returns self
      \<and> renewalRoutine_ticks_copy2 self (Suc n) w =
          renewalRoutine_ticks_copy2 self n
            (fmt_Printf (''Failed to renew certificates: %v'' @ [CHR 0x0A]) [Arg_error err] w1))
   \<and> ((\<forall>h m hello c. certificate_answer w h m hello = Inr c \<longrightarrow> Certificate c \<noteq> []) \<longrightarrow>
        fst (renewalRoutine self k w) = AwaitingTick)
   \<and> fst (renewalRoutine_copy2 self k w) = AwaitingTick"
  using renewalRoutine_running [of w self k] renewalRoutine_copy2_running [of self k w]
  by (simp add: renewalRoutine_body_def renewalRoutine_body_copy2_def)

theorem renewal_errors_logged_and_swallowed_witness:
  "fst (shouldRenew sample_TLSListener world_failing) =
     Returns (False, Some (errors_Wrap (lib_error ''acme/autocert: missing certificate'')
                            ''failed to get current certificate''))
   \<and> fst (renewalRoutine_body sample_TLSListener world_failing) = Returns ()
   \<and> new_events world_failing (snd (renewalRoutine_body sample_TLSListener world_failing)) =
       [Ev_GetCertificate sample_Manager \<lparr>ServerName = ''example.com''\<rparr>,
        Ev_Printf (''Failed to check certificate renewal status: %v'' @ [CHR 0x0A])
          [Arg_error (errors_Wrap (lib_error ''acme/autocert: missing certificate'')
                        ''failed to get current certificate'')]]
   \<and> fst (shouldRenew sample_TLSListener world_flaky) = Returns (True, None)
   \<and> fst (renewalRoutine_body sample_TLSListener world_flaky) = Returns ()
   \<and> new_events world_flaky (snd (renewalRoutine_body sample_TLSListener world_flaky)) =
       [Ev_GetCertificate sample_Manager \<lparr>ServerName = ''example.com''\<rparr>,
        Ev_GetCertificate sample_Manager \<lparr>ServerName = ''example.com''\<rparr>,
        Ev_Printf (''Failed to renew certificates: %v'' @ [CHR 0x0A])
          [Arg_error (lib_error ''acme: rate limited'')]]
   \<and> new_events world_failing (renewalRoutine_body_copy2 sample_TLSListener world_failing) =
       [Ev_GetCertificate sample_Manager \<lparr>ServerName = ''example.com''\<rparr>,
        Ev_Printf (''Failed to renew certificates: %v'' @ [CHR 0x0A])
          [Arg_error (lib_error ''acme/autocert: missing certificate'')]]
   \<and> fst (renewalRoutine sample_TLSListener 3 world_flaky) = AwaitingTick
   \<and> fst (renewalRoutine_copy2 sample_TLSListener 3 world_failing) = AwaitingTick"
proof -
  let ?s = sample_TLSListener
  let ?e = "errors_Wrap (lib_error ''acme/autocert: missing certificate'')
              ''failed to get current certificate''"
  let ?g = "Ev_GetCertificate sample_Manager \<lparr>ServerName = ''example.com''\<rparr>"
  have s1: "fst (shouldRenew ?s world_failing) = Returns (False, Some ?e)"
    by (simp add: shouldRenew_def getCertInfo_def sample_defs lib_defs)
  then have h1: "shouldRenew ?s world_failing =
      (Returns (False, Some ?e), snd (shouldRenew ?s world_failing))"
    by (simp add: prod_eq_iff)
  have e1: "events (snd (shouldRenew ?s world_failing)) = [?g]"
    by (simp add: shouldRenew_def getCertInfo_def sample_defs lib_defs)
  have s2: "fst (shouldRenew ?s world_flaky) = Returns (True, None)"
    by (simp add: shouldRenew_def getCertInfo_def GetCertificate_calls_def sample_defs lib_defs)
  then have h2: "shouldRenew ?s world_flaky = (Returns (True, None), snd (shouldRenew ?s world_flaky))"
    by (simp add: prod_eq_iff)
  let ?w1 = "snd (shouldRenew ?s world_flaky)"
  have r2: "fst (renewCertificates ?s ?w1) = Some (lib_error ''acme: rate limited'')"
    by (simp add: renewCertificates_def shouldRenew_def getCertInfo_def GetCertificate_calls_def
        sample_defs lib_defs)
  then have h3: "renewCertificates ?s ?w1 =
      (Some (lib_error ''acme: rate limited''), snd (renewCertificates ?s ?w1))"
    by (simp add: prod_eq_iff)
  have e2: "events (snd (renewCertificates ?s ?w1)) = [?g, ?g]"
    by (simp add: renewCertificates_def shouldRenew_def getCertInfo_def GetCertificate_calls_def
        sample_defs lib_defs)
  have r3: "fst (renewCertificates ?s world_failing) =
      Some (lib_error ''acme/autocert: missing certificate'')"
    by (simp add: renewCertificates_def sample_defs lib_defs)
  then have h4: "renewCertificates ?s world_failing =
      (Some (lib_error ''acme/autocert: missing certificate''),
       snd (renewCertificates ?s world_failing))"
    by (simp add: prod_eq_iff)
  have e3: "events (snd (renewCertificates ?s world_failing)) = [?g]"
    by (simp add: renewCertificates_def sample_defs lib_defs)
  have ev0: "events world_failing = []" "events world_flaky = []"
    by (simp_all add: sample_defs)
  from renewal_errors_logged_and_swallowed
         [of ?s world_failing False ?e "snd (shouldRenew ?s world_failing)" 0] h1
  have a: "renewalRoutine_body ?s world_failing =
      (Returns (), logf ''Failed to check certificate renewal status: %v'' [Arg_error ?e]
                     (snd (shouldRenew ?s world_failing)))"
    by blast
  from renewal_errors_logged_and_swallowed
         [of ?s world_flaky _ "lib_error ''acme: rate limited''" ?w1 0
             "snd (renewCertificates ?s ?w1)"] h2 h3
  have b: "renewalRoutine_body ?s world_flaky =
      (Returns (), logf ''Failed to renew certificates: %v''
                     [Arg_error (lib_error ''acme: rate limited'')]
                     (snd (renewCertificates ?s ?w1)))"
    by blast
  from renewal_errors_logged_and_swallowed
         [of ?s world_failing _ "lib_error ''acme/autocert: missing certificate''"
             "snd (renewCertificates ?s world_failing)" 0] h4
  have c: "renewalRoutine_body_copy2 ?s world_failing =
      fmt_Printf (''Failed to renew certificates: %v'' @ [CHR 0x0A])
        [Arg_error (lib_error ''acme/autocert: missing certificate'')]
        (snd (renewCertificates ?s world_failing))"
    by blast
  from a e1 ev0 have a': "fst (renewalRoutine_body ?s world_failing) = Returns ()"
    "new_events world_failing (snd (renewalRoutine_body ?s world_failing)) =
       [?g, Ev_Printf (''Failed to check certificate renewal status: %v'' @ [CHR 0x0A])
              [Arg_error ?e]]"
    by (simp_all add: new_events_def events_logf)
  from b e2 ev0 have b': "fst (renewalRoutine_body ?s world_flaky) = Returns ()"
    "new_events world_flaky (snd (renewalRoutine_body ?s world_flaky)) =
       [?g, ?g, Ev_Printf (''Failed to renew certificates: %v'' @ [CHR 0x0A])
              [Arg_error (lib_error ''acme: rate limited'')]]"
    by (simp_all add: new_events_def events_logf)
  from c e3 ev0 have c': "new_events world_failing (renewalRoutine_body_copy2 ?s world_failing) =
       [?g, Ev_Printf (''Failed to renew certificates: %v'' @ [CHR 0x0A])
              [Arg_error (lib_error ''acme/autocert: missing certificate'')]]"
    by (simp add: new_events_def fmt_Printf_def emit_def)
  have chains: "\<forall>h m hello c. certificate_answer world_flaky h m hello = Inr c
                  \<longrightarrow> Certificate c \<noteq> []"
    by (auto simp: sample_defs split: if_splits)
  from renewal_errors_logged_and_swallowed [of ?s world_flaky _ _ _ _ _ 3] chains
  have d: "fst (renewalRoutine ?s 3 world_flaky) = AwaitingTick"
    by blast
  from renewal_errors_logged_and_swallowed [of ?s world_failing _ _ _ _ _ 3]
  have e: "fst (renewalRoutine_copy2 ?s 3 world_failing) = AwaitingTick"
    by blast
  from s1 s2 a' b' c' d e show ?thesis by blast
qed

end
